theory Spec2Isabelle
  imports Main
begin

section \<open>Go values and HTTP requests\<close>

text \<open>
  A Go \<open>interface{}\<close> value as \<open>encoding/json\<close> produces it. \<open>JNil\<close> is the nil
  interface: what a lookup of an absent key in a \<open>map[string]interface{}\<close> returns, and
  what JSON \<open>null\<close> decodes to.
\<close>

datatype jval =
    JNil
  | JBool bool
  | JNumber int
  | JString string
  | JArray "jval list"
  | JObject "(string \<times> jval) list"

text \<open>\<open>jwt.MapClaims\<close> and the decoded install payload: \<open>map[string]interface{}\<close>.\<close>

type_synonym MapClaims = "(string \<times> jval) list"

text \<open>\<open>m[k]\<close> on a Go map: the zero value (the nil interface) when the key is absent.\<close>

definition index :: "MapClaims \<Rightarrow> string \<Rightarrow> jval" where
  "index m k = (case map_of m k of None \<Rightarrow> JNil | Some v \<Rightarrow> v)"

text \<open>\<open>v, ok := m[k]\<close>: the comma-ok lookup.\<close>

definition index_ok :: "MapClaims \<Rightarrow> string \<Rightarrow> jval option" where
  "index_ok m k = map_of m k"

text \<open>
  \<open>v.(string)\<close>. The one-result form panics when the dynamic type is not string (so also
  on the nil interface): \<open>None\<close> is that panic. The comma-ok form yields \<open>ok = false\<close>
  in the same cases.
\<close>

definition assert_string :: "jval \<Rightarrow> string option" where
  "assert_string v = (case v of JString s \<Rightarrow> Some s | _ \<Rightarrow> None)"

text \<open>
  \<open>url.Values.Get\<close>: the first value stored under the key, the empty string when there
  is none. Header fields are kept under their lower-cased names (\<open>http.Header.Get\<close> does
  not distinguish case).
\<close>

definition Values_Get :: "(string \<times> string) list \<Rightarrow> string \<Rightarrow> string" where
  "Values_Get vs k = (case map_of vs k of None \<Rightarrow> [] | Some v \<Rightarrow> v)"

primrec HasPrefix :: "string \<Rightarrow> string \<Rightarrow> bool" where
  "HasPrefix s [] = True"
| "HasPrefix s (p # ps) = (case s of [] \<Rightarrow> False | c # cs \<Rightarrow> c = p \<and> HasPrefix cs ps)"

definition TrimPrefix :: "string \<Rightarrow> string \<Rightarrow> string" where
  "TrimPrefix s p = (if HasPrefix s p then drop (length p) s else s)"

text \<open>
  The part of \<open>*http.Request\<close> the middlewares read. \<open>Body = None\<close> is \<open>http.NoBody\<close>;
  \<open>PostForm\<close> is what \<open>r.PostFormValue\<close> sees once net/http has parsed a form body.
\<close>

record Request =
  Query :: "(string \<times> string) list"
  PostForm :: "(string \<times> string) list"
  Header :: "(string \<times> string) list"
  Body :: "string option"

definition JWT_PARAM :: string where
  "JWT_PARAM = ''jwt''"

definition AUTH_HEADER :: string where
  "AUTH_HEADER = ''authorization''"

section \<open>Token extraction\<close>

definition ExtractJwt :: "Request \<Rightarrow> string \<times> bool" where
  "ExtractJwt r =
    (let tokenInQuery = Values_Get (Query r) JWT_PARAM in
     if tokenInQuery = [] \<and> Body r = None then ([], False)
     else
       let tokenInBody = Values_Get (PostForm r) JWT_PARAM in
       if tokenInQuery \<noteq> [] \<and> tokenInBody \<noteq> [] then ([], False)
       else
         let token0 = (if tokenInBody \<noteq> [] then tokenInBody else tokenInQuery);
             authHeader = Values_Get (Header r) AUTH_HEADER;
             token =
               (if authHeader \<noteq> [] \<and> HasPrefix authHeader ''JWT ''
                then (if token0 \<noteq> [] then token0 else TrimPrefix authHeader ''JWT '')
                else token0)
         in if token = [] then ([], False) else (token, True))"

section \<open>The add-on, its tenants and the external libraries\<close>

text \<open>One row of the tenant table; \<open>Context\<close> holds the rendering \<open>tenant.Context.String()\<close>.\<close>

record Tenant =
  ClientKey :: string
  BaseURL :: string
  SharedSecret :: string
  Context :: string
  AddonInstalled :: bool

text \<open>
  \<open>Store.Get\<close>: \<open>Where(&Tenant{ClientKey: clientKey}).First(&tenant)\<close> over the rows in
  primary-key order. A struct condition only constrains its non-zero fields, so the empty
  key matches the first row. \<open>None\<close> is a non-nil \<open>result.Error\<close>.
\<close>

definition Store_Get :: "Tenant list \<Rightarrow> string \<Rightarrow> Tenant option" where
  "Store_Get rows clientKey =
    (if clientKey = [] then (case rows of [] \<Rightarrow> None | t # _ \<Rightarrow> Some t)
     else find (\<lambda>t. ClientKey t = clientKey) rows)"

text \<open>
  \<open>*gonnect.Addon\<close>, as far as the middlewares read it: \<open>Key\<close> is a \<open>*string\<close>
  (\<open>None\<close> is the nil pointer), \<open>BaseUrl\<close> and \<open>SignedInstall\<close> are the fields of
  \<open>addon.Config\<close>, \<open>Store\<close> the rows behind \<open>addon.Store\<close>.
\<close>

record Addon =
  Key :: "string option"
  BaseUrl :: string
  SignedInstall :: bool
  Store :: "Tenant list"

datatype SigningMethod =
    SigningMethodHMAC string
  | SigningMethodRSA string
  | SigningMethodOther string

definition SigningMethodHS256 :: SigningMethod where
  "SigningMethodHS256 = SigningMethodHMAC ''HS256''"

definition SigningMethodRS256 :: SigningMethod where
  "SigningMethodRS256 = SigningMethodRSA ''RS256''"

definition Alg :: "SigningMethod \<Rightarrow> string" where
  "Alg m = (case m of SigningMethodHMAC n \<Rightarrow> n | SigningMethodRSA n \<Rightarrow> n | SigningMethodOther n \<Rightarrow> n)"

text \<open>
  \<open>*jwt.Token\<close>. \<open>Claims = None\<close> is a \<open>Claims\<close> interface that holds no
  \<open>jwt.MapClaims\<close>; \<open>Method = None\<close> is the nil signing method of a token whose header
  could not be resolved.
\<close>

record Token =
  THeader :: "(string \<times> jval) list"
  Claims :: "MapClaims option"
  Method :: "SigningMethod option"

datatype Key = BytesKey string | RSAPublicKey string

record StandardClaims =
  Audience :: string
  ExpiresAt :: int
  Id :: string
  IssuedAt :: int
  Issuer :: string
  NotBefore :: int
  Subject :: string

text \<open>The outcome of one \<open>http.Get\<close>: a transport error, or a status with the result of reading the body.\<close>

datatype HttpResult =
    TransportError string
  | Response nat "string + string"

text \<open>
  The collaborators outside the repository, as parameters: the JWT library's decoding,
  claim validation, signature check and signing; the QSH canonicalizer of package
  \<open>atlasjwt\<close>; the JSON decoder; the key-distribution endpoint (the outcome of the
  \<open>n\<close>-th \<open>http.Get\<close> for a key id); and the clock of the fallback cache.
\<close>

record Ext =
  ParseUnverified :: "string \<Rightarrow> Token option \<times> bool"
  ClaimsValid :: "MapClaims \<Rightarrow> bool"
  VerifySig :: "string \<Rightarrow> SigningMethod \<Rightarrow> Key \<Rightarrow> bool"
  VerifyAudience :: "MapClaims \<Rightarrow> string \<Rightarrow> bool \<Rightarrow> bool"
  ParseRSAPublicKeyFromPEM :: "string \<Rightarrow> string + Key"
  SignedString :: "SigningMethod \<Rightarrow> StandardClaims \<Rightarrow> string \<Rightarrow> string + string"
  CreateQueryStringHash :: "Request \<Rightarrow> bool \<Rightarrow> string \<Rightarrow> string"
  JsonDecode :: "string \<Rightarrow> MapClaims"
  HttpGet :: "nat \<Rightarrow> string \<Rightarrow> HttpResult"
  Now :: int

section \<open>QSH validation\<close>

definition ValidateQshFromRequest :: "Ext \<Rightarrow> MapClaims \<Rightarrow> Request \<Rightarrow> Addon \<Rightarrow> bool \<Rightarrow> bool" where
  "ValidateQshFromRequest X claims r addon skipQsh =
    (if \<not> skipQsh \<and> index claims ''qsh'' \<noteq> JString []
     then
       (let expectedHash = CreateQueryStringHash X r False (BaseUrl addon) in
        if index claims ''qsh'' \<noteq> JString expectedHash
        then
          (let expectedHash' = CreateQueryStringHash X r True (BaseUrl addon) in
           if index claims ''qsh'' \<noteq> JString expectedHash' then False else True)
        else True)
     else True)"

section \<open>Responses\<close>

text \<open>
  What a handler does to the world, in order. \<open>SendError code msg\<close> is
  \<open>util.SendError\<close>: \<open>w.WriteHeader(code)\<close>, then \<open>w.Write(msg)\<close>, then an error log
  line. \<open>SetHeader\<close> and \<open>AddHeader\<close> act on \<open>w.Header()\<close>, \<open>StoreGet\<close> is a tenant
  lookup, \<open>LogWarn\<close> and \<open>LogError\<close> are log lines. \<open>Forward params\<close> is the call of
  the wrapped handler through \<open>NewRequestMiddleware(addon, params)\<close>; \<open>Next ctx\<close> is the
  call of the wrapped handler of the installation gate, with the \<open>clientKey\<close> the request
  context carries.
\<close>

datatype event =
    SendError nat string
  | SetHeader string string
  | AddHeader string string
  | StoreGet string
  | LogWarn string
  | LogError string
  | Forward "(string \<times> string) list"
  | Next "string option"

text \<open>A handler returns, or panics after the events it got to.\<close>

datatype outcome = Returned "event list" | Panicked "event list"

definition events_of :: "outcome \<Rightarrow> event list" where
  "events_of out = (case out of Returned es \<Rightarrow> es | Panicked es \<Rightarrow> es)"

text \<open>
  The status the client sees: net/http keeps the first \<open>WriteHeader\<close> and ignores later
  ones; a handler that returns without writing one answers 200.
\<close>

primrec status_of :: "event list \<Rightarrow> nat" where
  "status_of [] = 200"
| "status_of (e # es) = (case e of SendError code _ \<Rightarrow> code | _ \<Rightarrow> status_of es)"

primrec is_handler_call :: "event \<Rightarrow> bool" where
  "is_handler_call (SendError c m) = False"
| "is_handler_call (SetHeader k v) = False"
| "is_handler_call (AddHeader k v) = False"
| "is_handler_call (StoreGet k) = False"
| "is_handler_call (LogWarn m) = False"
| "is_handler_call (LogError m) = False"
| "is_handler_call (Forward ps) = True"
| "is_handler_call (Next c) = True"

definition handler_invoked :: "outcome \<Rightarrow> bool" where
  "handler_invoked out = list_ex is_handler_call (events_of out)"

section \<open>The token codec\<close>

text \<open>
  Modelled from the spec: \<open>jwt.Parse(tokenStr, keyFunc)\<close> with a key function (package
  \<open>jwt\<close> is not under src/). Section 4.1: the token is parsed without verification, the
  key function resolves the key from the parsed token (and rejects algorithms), then the
  signature and the standard claims are checked; any failure is an error. The result is
  only read by the callers when the error is nil.
\<close>

definition jwt_Parse :: "Ext \<Rightarrow> string \<Rightarrow> (Token \<Rightarrow> string + Key) \<Rightarrow> string + Token" where
  "jwt_Parse X tokenStr keyFunc =
    (case ParseUnverified X tokenStr of
       (None, _) \<Rightarrow> Inl ''token is malformed''
     | (Some token, False) \<Rightarrow> Inl ''token is malformed''
     | (Some token, True) \<Rightarrow>
         (case keyFunc token of
            Inl e \<Rightarrow> Inl e
          | Inr key \<Rightarrow>
              (case Claims token of
                 None \<Rightarrow> Inl ''token is malformed''
               | Some claims \<Rightarrow>
                   (case Method token of
                      None \<Rightarrow> Inl ''signing method (alg) is unavailable''
                    | Some m \<Rightarrow>
                        if \<not> VerifySig X tokenStr m key then Inl ''signature is invalid''
                        else if \<not> ClaimsValid X claims then Inl ''token is expired''
                        else Inr token))))"

text \<open>\<open>jwt.Parse(tokenStr, nil)\<close> with the error dropped: the token pointer, \<open>None\<close> when nil.\<close>

definition jwt_Parse_nil :: "Ext \<Rightarrow> string \<Rightarrow> Token option" where
  "jwt_Parse_nil X tokenStr = fst (ParseUnverified X tokenStr)"

definition extractUnverifiedClaims :: "Ext \<Rightarrow> string \<Rightarrow> MapClaims \<times> bool" where
  "extractUnverifiedClaims X tokenStr =
    (case jwt_Parse_nil X tokenStr of
       None \<Rightarrow> ([], False)
     | Some token \<Rightarrow>
         (case Claims token of
            Some claims \<Rightarrow> (claims, True)
          | None \<Rightarrow> ([], False)))"

section \<open>The Authentication Middleware\<close>

text \<open>The key function of the verifying parse: the switch on \<open>token.Header["alg"]\<close>.\<close>

definition auth_keyFunc :: "string \<Rightarrow> Token \<Rightarrow> string + Key" where
  "auth_keyFunc secret token =
    (let alg = index (THeader token) ''alg'' in
     if alg = JString ''none'' then Inl ''alg is none, discard''
     else if alg = JString ''HS256'' then
       (case Method token of
          Some (SigningMethodHMAC n) \<Rightarrow> Inr (BytesKey secret)
        | _ \<Rightarrow> Inl ''expected HS256 signing method'')
     else if alg = JString ''RS256'' then
       (case Method token of
          Some (SigningMethodRSA n) \<Rightarrow> Inr (BytesKey secret)
        | _ \<Rightarrow> Inl ''expected RS256 signing method'')
     else Inl ''unexpected signing method'')"

text \<open>
  The claims of the session token, as the closure \<open>createSessionToken\<close> builds them:
  the other fields of \<open>jwt.StandardClaims\<close> keep their zero values.
\<close>

definition sessionClaims :: "string \<Rightarrow> string \<Rightarrow> MapClaims \<Rightarrow> StandardClaims" where
  "sessionClaims addonKey clientKey verClaims =
    (let claims = \<lparr>Audience = clientKey, ExpiresAt = 0, Id = [], IssuedAt = 0,
                   Issuer = addonKey, NotBefore = 0, Subject = []\<rparr>
     in case assert_string (index verClaims ''subject'') of
          Some subject \<Rightarrow> claims\<lparr>Subject := subject\<rparr>
        | None \<Rightarrow> claims)"

text \<open>
  \<open>createSessionToken\<close>: \<open>None\<close> is the panic of \<open>*h.addon.Key\<close> on a nil pointer;
  otherwise the signing result and the header the closure sets.
\<close>

definition createSessionToken ::
  "Ext \<Rightarrow> Addon \<Rightarrow> string \<Rightarrow> Tenant \<Rightarrow> MapClaims \<Rightarrow> ((string + string) \<times> event list) option" where
  "createSessionToken X addon clientKey tenant verClaims =
    (case Key addon of
       None \<Rightarrow> None
     | Some addonKey \<Rightarrow>
         (case SignedString X SigningMethodHS256 (sessionClaims addonKey clientKey verClaims)
                 (SharedSecret tenant) of
            Inl err \<Rightarrow> Some (Inl err, [])
          | Inr signedToken \<Rightarrow> Some (Inr signedToken, [SetHeader ''X-acpt'' signedToken])))"

text \<open>
  Lines 208 to 238 of \<open>ServeHTTP\<close>: the session token, the second lookup (whose error
  text is not rendered into the message), the forward.
\<close>

definition auth_finish ::
  "Ext \<Rightarrow> Addon \<Rightarrow> string \<Rightarrow> Tenant \<Rightarrow> MapClaims \<Rightarrow> event list \<Rightarrow> outcome" where
  "auth_finish X addon clientKey tenant claims w =
    (case createSessionToken X addon clientKey tenant claims of
       None \<Rightarrow> Panicked w
     | Some (Inl err, hs) \<Rightarrow>
         Returned (w @ hs @ [SendError 500 (''Could not create new access token '' @ err)])
     | Some (Inr tokenString, hs) \<Rightarrow>
         (let w1 = w @ hs @ [StoreGet clientKey] in
          case Store_Get (Store addon) clientKey of
            None \<Rightarrow> Returned (w1 @ [SendError 500 ''Could not create new access token ''])
          | Some tenant' \<Rightarrow>
              (let sub = index claims ''sub'' in
               if sub \<noteq> JNil then
                 (case assert_string sub of
                    None \<Rightarrow> Panicked w1
                  | Some accountID \<Rightarrow>
                      Returned (w1 @ [Forward
                        [(''clientKey'', clientKey), (''hostBaseUrl'', BaseURL tenant'),
                         (''token'', tokenString), (''userAccountId'', accountID),
                         (''tenantContext'', Context tenant')]]))
               else
                 Returned (w1 @ [Forward
                   [(''clientKey'', clientKey), (''hostBaseUrl'', BaseURL tenant'),
                    (''token'', tokenString), (''userAccountId'', []),
                    (''tenantContext'', Context tenant')]]))))"

text \<open>
  Lines 119 to 180: the tenant lookup, the verifying parse, the validity and QSH checks. A
  token the verifying parse returns without error holds \<open>jwt.MapClaims\<close>; for one that
  did not, the cast of line 168 fails.
\<close>

definition auth_verify ::
  "Ext \<Rightarrow> Addon \<Rightarrow> bool \<Rightarrow> Request \<Rightarrow> string \<Rightarrow> string \<Rightarrow> event list \<Rightarrow> outcome" where
  "auth_verify X addon skipQsh r token clientKey w =
    (let w1 = w @ [StoreGet clientKey] in
     case Store_Get (Store addon) clientKey of
       None \<Rightarrow> Returned (w1 @ [SendError 500 ''Could not lookup stored client data for clientKey''])
     | Some tenant \<Rightarrow>
         (let secret = SharedSecret tenant in
          if secret = [] then
            Returned (w1 @ [SendError 401 ''Could not find JQT sharedSecret in tenant clientKey''])
          else
            (case jwt_Parse X token (auth_keyFunc secret) of
               Inl err \<Rightarrow>
                 Returned (w1 @ [LogError (''JWT Token verification error: '' @ err),
                                 SendError 500 ''Could not verify JWT Token''])
             | Inr verifiedToken \<Rightarrow>
                 (case Claims verifiedToken of
                    None \<Rightarrow> Returned (w1 @ [SendError 500 ''Could not cast Claims''])
                  | Some claims \<Rightarrow>
                      if \<not> ClaimsValid X claims then
                        Returned (w1 @ [SendError 500
                          ''Could not find verify JWT Claims; Auth request has expired''])
                      else if \<not> ValidateQshFromRequest X claims r addon skipQsh then
                        Returned (w1 @ [SendError 401 ''Auth failure: Query hash mismatch''])
                      else auth_finish X addon clientKey tenant claims w1))))"

text \<open>\<open>AuthenticationMiddleware.ServeHTTP\<close>, with \<open>h.addon\<close> and \<open>h.skipQsh\<close> as arguments.\<close>

definition AuthenticationMiddleware_ServeHTTP :: "Ext \<Rightarrow> Addon \<Rightarrow> bool \<Rightarrow> Request \<Rightarrow> outcome" where
  "AuthenticationMiddleware_ServeHTTP X addon skipQsh r =
    (case ExtractJwt r of
       (token, ok) \<Rightarrow>
         if \<not> ok then Returned [SendError 401 ''Could not find auth data on request'']
         else
           (case extractUnverifiedClaims X token of
              (unverifiedClaims, ok') \<Rightarrow>
                if \<not> ok' then
                  Returned [SendError 401 ''JWT claim did not contain the issuer (iss) claim'']
                else if index unverifiedClaims ''iss'' = JString [] then
                  Returned [SendError 401 ''JWT claim did not contain the issuer (iss) claim'']
                else
                  (case assert_string (index unverifiedClaims ''iss'') of
                     None \<Rightarrow> Panicked []
                   | Some clientKey \<Rightarrow>
                       (let queryStringHash = index unverifiedClaims ''qsh'';
                            w = (if queryStringHash = JString [] \<and> \<not> skipQsh
                                 then [SendError 401
                                   ''JWT claim did not contain the query string hash (qsh) claim'']
                                 else [])
                        in auth_verify X addon skipQsh r token clientKey w))))"

section \<open>The Key Resolver\<close>

text \<open>
  The fallback cache (\<open>cache.New(4*time.Hour, 1*time.Hour)\<close> of go-cache): an item
  carries the time it expires at, in nanoseconds; \<open>Get\<close> does not see an expired item,
  and \<open>Add\<close> stores only when \<open>Get\<close> sees none (its error is dropped by the caller).
\<close>

record CacheItem =
  Object :: string
  Expiration :: int

type_synonym Cache = "string \<rightharpoonup> CacheItem"

definition DefaultExpiration :: int where
  "DefaultExpiration = 4 * 3600 * 1000000000"

definition cache_Get :: "int \<Rightarrow> Cache \<Rightarrow> string \<Rightarrow> string option" where
  "cache_Get now c k =
    (case c k of
       None \<Rightarrow> None
     | Some item \<Rightarrow>
         if Expiration item > 0 \<and> now > Expiration item then None else Some (Object item))"

definition cache_Add :: "int \<Rightarrow> Cache \<Rightarrow> string \<Rightarrow> string \<Rightarrow> Cache" where
  "cache_Add now c k x =
    (case cache_Get now c k of
       Some y \<Rightarrow> c
     | None \<Rightarrow> c(k \<mapsto> \<lparr>Object = x, Expiration = now + DefaultExpiration\<rparr>))"

text \<open>The shared state of the resolver: the cache, and how many live fetches were made.\<close>

record KeyState =
  keyFallbackCache :: Cache
  Fetches :: nat

text \<open>
  \<open>fetchKeyWithKeyId\<close>. \<open>url.Parse\<close> of the constant endpoint does not fail; the live
  fetch is the next \<open>http.Get\<close> of the endpoint joined with the key id.
\<close>

definition fetchKeyWithKeyId :: "Ext \<Rightarrow> KeyState \<Rightarrow> string \<Rightarrow> (string + string) \<times> KeyState" where
  "fetchKeyWithKeyId X st keyId =
    (let st1 = st\<lparr>Fetches := Suc (Fetches st)\<rparr> in
     case HttpGet X (Fetches st) keyId of
       TransportError err \<Rightarrow> (Inl err, st1)
     | Response status body \<Rightarrow>
         if status = 200 then
           (case body of
              Inl err \<Rightarrow> (Inl err, st1)
            | Inr bodyString \<Rightarrow>
                (Inr bodyString,
                 st1\<lparr>keyFallbackCache := cache_Add (Now X) (keyFallbackCache st1) keyId bodyString\<rparr>))
         else
           (case cache_Get (Now X) (keyFallbackCache st1) keyId of
              None \<Rightarrow> (Inl ''Could not retrieve public Key from CDN or fallbackCache'', st1)
            | Some fallbackKey \<Rightarrow> (Inr fallbackKey, st1)))"

section \<open>Asymmetric verification\<close>

text \<open>A Go call that returns a value and an error, or panics.\<close>

datatype 'a result = Ok 'a | Err string | Panic

definition isJwtAsymmetric :: "Ext \<Rightarrow> Request \<Rightarrow> bool option" where
  "isJwtAsymmetric X r =
    (case ExtractJwt r of
       (tokenStr, ok) \<Rightarrow>
         if \<not> ok then Some ok
         else
           (case jwt_Parse_nil X tokenStr of
              None \<Rightarrow> None
            | Some token \<Rightarrow> Some (Method token = Some SigningMethodRS256)))"

definition decodeAsymmetric ::
  "Ext \<Rightarrow> string \<Rightarrow> string \<Rightarrow> SigningMethod \<Rightarrow> bool \<Rightarrow> MapClaims result" where
  "decodeAsymmetric X tokenStr publicKey signedAlgorithm noVerify =
    (case jwt_Parse_nil X tokenStr of
       None \<Rightarrow> Panic
     | Some token \<Rightarrow>
         (case Method token of
            None \<Rightarrow> Panic
          | Some m \<Rightarrow>
              if Alg m \<noteq> Alg signedAlgorithm then Err (''Unexpected signing method: '' @ Alg m)
              else if \<not> noVerify then
                (case jwt_Parse X tokenStr (\<lambda>t. ParseRSAPublicKeyFromPEM X publicKey) of
                   Inl err \<Rightarrow> Err err
                 | Inr token' \<Rightarrow>
                     (case Claims token' of None \<Rightarrow> Panic | Some claims \<Rightarrow> Ok claims))
              else
                (case Claims token of None \<Rightarrow> Panic | Some claims \<Rightarrow> Ok claims)))"

definition decodeAsymmetricToken ::
  "Ext \<Rightarrow> KeyState \<Rightarrow> string \<Rightarrow> bool \<Rightarrow> MapClaims result \<times> KeyState" where
  "decodeAsymmetricToken X st tokenStr noVerify =
    (case jwt_Parse_nil X tokenStr of
       None \<Rightarrow> (Panic, st)
     | Some token \<Rightarrow>
         (case index_ok (THeader token) ''kid'' of
            None \<Rightarrow> (Err ''keyId is missing'', st)
          | Some keyIdI \<Rightarrow>
              (case assert_string keyIdI of
                 None \<Rightarrow> (Err ''keyId is missing'', st)
               | Some keyId \<Rightarrow>
                   if keyId = [] then (Err ''keyId is missing'', st)
                   else
                     (case fetchKeyWithKeyId X st keyId of
                        (Inl err, st') \<Rightarrow> (Err err, st')
                      | (Inr publicKey, st') \<Rightarrow>
                          (decodeAsymmetric X tokenStr publicKey SigningMethodRS256 noVerify, st')))))"

definition verifyAsymmetricJwtAndGetClaims ::
  "Ext \<Rightarrow> Addon \<Rightarrow> KeyState \<Rightarrow> Request \<Rightarrow> string result \<times> KeyState" where
  "verifyAsymmetricJwtAndGetClaims X addon st r =
    (case ExtractJwt r of
       (tokenStr, ok) \<Rightarrow>
         if \<not> ok then (Err ''Could not find authentication data on request'', st)
         else
           (case decodeAsymmetricToken X st tokenStr True of
              (Panic, st1) \<Rightarrow> (Panic, st1)
            | (Err err, st1) \<Rightarrow> (Err err, st1)
            | (Ok unverifiedClaims, st1) \<Rightarrow>
                if index unverifiedClaims ''iss'' = JString [] then
                  (Err ''JWT claim did not contain the issuer (iss) claim'', st1)
                else
                  (case assert_string (index unverifiedClaims ''iss'') of
                     None \<Rightarrow> (Panic, st1)
                   | Some clientKey \<Rightarrow>
                       if \<not> VerifyAudience X unverifiedClaims (BaseUrl addon) True then
                         (Err ''JWT claim did not contain the correct audience (aud) claim'', st1)
                       else if index unverifiedClaims ''qsh'' = JString [] then
                         (Err ''JWT claim did not contain the query string hash (qsh) claim'', st1)
                       else
                         (case decodeAsymmetricToken X st1 tokenStr False of
                            (Panic, st2) \<Rightarrow> (Panic, st2)
                          | (Err err, st2) \<Rightarrow> (Err err, st2)
                          | (Ok verifiedClaims, st2) \<Rightarrow>
                              if \<not> ClaimsValid X verifiedClaims then
                                (Err ''Authentication request has expired.'', st2)
                              else if \<not> ValidateQshFromRequest X verifiedClaims r addon False then
                                (Err ''Auth failure: Query hash mismatch'', st2)
                              else (Ok clientKey, st2)))))"

text \<open>
  \<open>signedInstallMiddleware.ServeHTTP\<close>; \<open>next\<close> is the wrapped handler, given the
  \<open>clientKey\<close> put into the request context.
\<close>

definition signedInstallMiddleware_ServeHTTP ::
  "Ext \<Rightarrow> Addon \<Rightarrow> (string \<Rightarrow> outcome) \<Rightarrow> KeyState \<Rightarrow> Request \<Rightarrow> outcome \<times> KeyState" where
  "signedInstallMiddleware_ServeHTTP X addon next st r =
    (case verifyAsymmetricJwtAndGetClaims X addon st r of
       (Panic, st') \<Rightarrow> (Panicked [], st')
     | (Err err, st') \<Rightarrow> (Returned [SendError 401 err], st')
     | (Ok clientKey, st') \<Rightarrow> (next clientKey, st'))"

section \<open>The Installation Handshake Middleware\<close>

text \<open>
  The handler literal of lines 210 to 218: Go's \<open>==\<close> between the context's string and the
  payload's \<open>interface{}\<close> holds when the payload value is that string.
\<close>

definition install_next :: "jval \<Rightarrow> string \<Rightarrow> outcome" where
  "install_next clientKey ctxClientKey =
    (if JString ctxClientKey = clientKey then Returned [Next (Some ctxClientKey)]
     else Returned [SendError 401 ''clientKey in install payload did not match authenticated client''])"

text \<open>
  \<open>VerifyInstallationMiddleware.ServeHTTP\<close>. The body is decoded through a tee and put
  back, so the request goes on with a body that is not \<open>http.NoBody\<close>. The warning is
  logged with its format string.
\<close>

definition VerifyInstallationMiddleware_ServeHTTP ::
  "Ext \<Rightarrow> Addon \<Rightarrow> KeyState \<Rightarrow> Request \<Rightarrow> outcome \<times> KeyState" where
  "VerifyInstallationMiddleware_ServeHTTP X addon st r =
    (case Body r of
       None \<Rightarrow> (Returned [SendError 401 ''No registration info provided''], st)
     | Some b \<Rightarrow>
         (let responseData = JsonDecode X b;
              r' = r\<lparr>Body := Some b\<rparr>
          in case index_ok responseData ''baseUrl'' of
               None \<Rightarrow> (Returned [SendError 401 ''No baseUrl provided for registration info''], st)
             | Some baseUrl \<Rightarrow>
                 (case index_ok responseData ''clientKey'' of
                    None \<Rightarrow> (Returned [LogWarn ''No clientKey provided for host %s''], st)
                  | Some clientKey \<Rightarrow>
                      if SignedInstall addon then
                        (case isJwtAsymmetric X r' of
                           None \<Rightarrow> (Panicked [], st)
                         | Some True \<Rightarrow>
                             signedInstallMiddleware_ServeHTTP X addon (install_next clientKey) st r'
                         | Some False \<Rightarrow>
                             (Returned [AddHeader ''x-unexpected-symmetric-hook'' ''true'', Next None], st))
                      else (Returned [Next None], st))))"

section \<open>Routes\<close>

text \<open>
  The handlers the router binds: the three of package \<open>routes\<close>, a handler of the caller,
  and the two gates with what they wrap (\<open>AuthenticationMiddleware\<close> with its \<open>skipQsh\<close>).
\<close>

datatype 'h handler =
    AtlassianConnectHandler
  | InstalledHandler
  | UninstalledHandler
  | CallerHandler 'h
  | VerifyInstallationMiddleware "'h handler"
  | AuthenticationMiddleware "'h handler" bool

definition NewVerifyInstallationMiddleware :: "'h handler \<Rightarrow> 'h handler" where
  "NewVerifyInstallationMiddleware next = VerifyInstallationMiddleware next"

definition NewAuthenticationMiddleware :: "bool \<Rightarrow> 'h handler \<Rightarrow> 'h handler" where
  "NewAuthenticationMiddleware skipQsh h = AuthenticationMiddleware h skipQsh"

text \<open>\<open>strings.Trim\<close>: the leading and trailing characters of the cutset removed.\<close>

definition Trim :: "string \<Rightarrow> string \<Rightarrow> string" where
  "Trim s cutset =
    rev (dropWhile (\<lambda>c. c \<in> set cutset) (rev (dropWhile (\<lambda>c. c \<in> set cutset) s)))"

definition route_base :: "string \<Rightarrow> string" where
  "route_base base =
    (let b = Trim base [CHR '' '', CHR 0x09, CHR ''/'']
     in if b = [] then ''/'' else ''/'' @ b @ ''/'')"

text \<open>
  \<open>RegisterRoutes\<close> on the package's \<open>RegisteredRoutes\<close> and the router, a map from
  pattern to handler in which \<open>mux.Handle\<close> binds the pattern anew. \<open>enabled\<close> and
  \<open>disabled\<close> are \<open>None\<close> when nil. Every handler and gate is built with the same
  \<open>addon\<close>, which is left out.
\<close>

definition RegisterRoutes ::
  "string \<Rightarrow> 'h option \<Rightarrow> 'h option \<Rightarrow> string list \<times> (string \<rightharpoonup> 'h handler)
     \<Rightarrow> string list \<times> (string \<rightharpoonup> 'h handler)" where
  "RegisterRoutes base0 enabled disabled s =
    (let base = route_base base0;
         routes = fst s @ [base @ ''atlassian-connect.json'', base @ ''installed'', base @ ''uninstalled''];
         mux1 = (snd s)(base @ ''atlassian-connect.json'' \<mapsto> AtlassianConnectHandler);
         mux2 = mux1(base @ ''installed'' \<mapsto> NewVerifyInstallationMiddleware InstalledHandler);
         mux3 = mux2(base @ ''uninstalled'' \<mapsto> NewAuthenticationMiddleware False UninstalledHandler);
         mux4 = (case enabled of
                   None \<Rightarrow> mux3
                 | Some e \<Rightarrow> mux3(base @ ''enabled'' \<mapsto> NewAuthenticationMiddleware False (CallerHandler e)));
         mux5 = (case disabled of
                   None \<Rightarrow> mux4
                 | Some d \<Rightarrow> mux4(base @ ''disabled'' \<mapsto> NewAuthenticationMiddleware False (CallerHandler d)))
     in (routes, mux5))"

text \<open>Whether a router binding is a handler behind the installation-handshake gate.\<close>

definition gated_by_installation_handshake :: "'h handler option \<Rightarrow> bool" where
  "gated_by_installation_handshake b =
    (case b of Some (VerifyInstallationMiddleware h) \<Rightarrow> True | _ \<Rightarrow> False)"

section \<open>A concrete add-on for evaluation\<close>

text \<open>
  One add-on with one installed tenant, and stand-ins for the external libraries: tokens
  are looked up in a table, a signature is good unless the token is \<open>t.badsig\<close>, claims
  are valid unless \<open>exp\<close> is set (not 0) and lies before the time 1000 of the
  validation, the canonical hash of every request is \<open>H\<close>, the signer
  spells out the claims it was given, and the key-distribution endpoint knows the key
  \<open>k1\<close> and is unreachable for every other key id.
\<close>

definition tenantA :: Tenant where
  "tenantA = \<lparr>ClientKey = ''tenantA'', BaseURL = ''https://host.example'',
              SharedSecret = ''secretA'', Context = ''{}'', AddonInstalled = True\<rparr>"

definition addon0 :: Addon where
  "addon0 = \<lparr>Key = Some ''my-addon'', BaseUrl = ''https://addon.example'',
             SignedInstall = True, Store = [tenantA]\<rparr>"

definition hs256_token :: "MapClaims \<Rightarrow> Token" where
  "hs256_token claims =
    \<lparr>THeader = [(''alg'', JString ''HS256'')], Claims = Some claims,
     Method = Some SigningMethodHS256\<rparr>"

definition rs256_token :: "MapClaims \<Rightarrow> Token" where
  "rs256_token claims =
    \<lparr>THeader = [(''alg'', JString ''RS256''), (''kid'', JString ''k1'')], Claims = Some claims,
     Method = Some SigningMethodRS256\<rparr>"

definition tokens0 :: "(string \<times> Token) list" where
  "tokens0 =
    [(''t.good'', hs256_token [(''iss'', JString ''tenantA''), (''sub'', JString ''acct-1''),
                              (''qsh'', JString ''H'')]),
     (''t.noqsh'', hs256_token [(''iss'', JString ''tenantA'')]),
     (''t.noqsh.B'', hs256_token [(''iss'', JString ''tenantB'')]),
     (''t.emptyqsh'', hs256_token [(''iss'', JString ''tenantA''), (''qsh'', JString [])]),
     (''t.noiss'', hs256_token [(''qsh'', JString ''H'')]),
     (''t.badsig'', hs256_token [(''iss'', JString ''tenantA''), (''qsh'', JString ''H'')]),
     (''t.expired'', hs256_token [(''iss'', JString ''tenantA''), (''qsh'', JString ''H''),
                                 (''exp'', JNumber 999)]),
     (''t.rs'', rs256_token [(''iss'', JString ''tenantB''),
                            (''aud'', JString ''https://addon.example''),
                            (''qsh'', JString ''H'')])]"

definition ext0 :: Ext where
  "ext0 =
    \<lparr>ParseUnverified =
       (\<lambda>s. case map_of tokens0 s of None \<Rightarrow> (None, False) | Some t \<Rightarrow> (Some t, True)),
     ClaimsValid = (\<lambda>c. case index c ''exp'' of JNumber e \<Rightarrow> e = 0 \<or> 1000 \<le> e | _ \<Rightarrow> True),
     VerifySig = (\<lambda>s m k. s \<noteq> ''t.badsig''),
     VerifyAudience = (\<lambda>c cmp req. index c ''aud'' = JString cmp),
     ParseRSAPublicKeyFromPEM = (\<lambda>pem. Inr (RSAPublicKey pem)),
     SignedString =
       (\<lambda>m c k. Inr (Alg m @ '':iss='' @ Issuer c @ '',aud='' @ Audience c @ '',sub='' @ Subject c)),
     CreateQueryStringHash = (\<lambda>r b base. ''H''),
     JsonDecode =
       (\<lambda>b. if b = ''full'' then [(''baseUrl'', JString ''https://host.example''),
                                  (''clientKey'', JString ''tenantB'')]
            else if b = ''nokey'' then [(''baseUrl'', JString ''https://host.example'')]
            else []),
     HttpGet =
       (\<lambda>n keyId. if keyId = ''k1'' then Response 200 (Inr ''PEM-k1'')
                  else TransportError ''dial tcp: i/o timeout''),
     Now = 1000\<rparr>"

text \<open>A request that carries its token in the query string and has no body.\<close>

definition req_query :: "string \<Rightarrow> Request" where
  "req_query tok = \<lparr>Query = [(''jwt'', tok)], PostForm = [], Header = [], Body = None\<rparr>"

text \<open>A GET request with no body that carries its token in the Authorization header.\<close>

definition req_header :: "string \<Rightarrow> Request" where
  "req_header tok =
    \<lparr>Query = [], PostForm = [], Header = [(''authorization'', ''JWT '' @ tok)], Body = None\<rparr>"

text \<open>An installation callback: the token in the query string, the payload in the body.\<close>

definition req_install :: "string \<Rightarrow> string \<Rightarrow> Request" where
  "req_install tok payload =
    \<lparr>Query = [(''jwt'', tok)], PostForm = [], Header = [], Body = Some payload\<rparr>"

definition st0 :: KeyState where
  "st0 = \<lparr>keyFallbackCache = Map.empty, Fetches = 0\<rparr>"

text \<open>A resolver state whose cache holds an unexpired key for the id \<open>k9\<close>.\<close>

definition st_cached :: KeyState where
  "st_cached =
    \<lparr>keyFallbackCache = [''k9'' \<mapsto> \<lparr>Object = ''PEM-k9'', Expiration = 5000\<rparr>], Fetches = 0\<rparr>"

section \<open>What the caller sees\<close>

text \<open>A request is rejected with a status when that is the status of the response and no wrapped handler ran.\<close>

definition rejected_with :: "nat \<Rightarrow> outcome \<Rightarrow> bool" where
  "rejected_with code out = (status_of (events_of out) = code \<and> \<not> handler_invoked out)"

section \<open>Evaluation rules\<close>

lemmas auth_defs =
  AuthenticationMiddleware_ServeHTTP_def auth_verify_def auth_finish_def createSessionToken_def
  sessionClaims_def auth_keyFunc_def jwt_Parse_def jwt_Parse_nil_def extractUnverifiedClaims_def
  ExtractJwt_def ValidateQshFromRequest_def Values_Get_def index_def index_ok_def assert_string_def
  Store_Get_def JWT_PARAM_def AUTH_HEADER_def TrimPrefix_def SigningMethodHS256_def
  SigningMethodRS256_def Alg_def

lemmas install_defs =
  VerifyInstallationMiddleware_ServeHTTP_def signedInstallMiddleware_ServeHTTP_def
  verifyAsymmetricJwtAndGetClaims_def decodeAsymmetricToken_def decodeAsymmetric_def
  isJwtAsymmetric_def fetchKeyWithKeyId_def cache_Get_def cache_Add_def install_next_def
  DefaultExpiration_def

lemmas fixture_defs =
  tenantA_def addon0_def hs256_token_def rs256_token_def tokens0_def ext0_def
  req_query_def req_header_def req_install_def st0_def st_cached_def

lemmas outcome_defs = rejected_with_def handler_invoked_def events_of_def

section \<open>Token extraction (claim C8)\<close>

text \<open>
  With a body that is not \<open>http.NoBody\<close> and neither a query nor a form value, the token
  of a \<open>JWT\<close> Authorization header is what extraction returns.
\<close>

lemma ExtractJwt_header_with_body:
  assumes "Values_Get (Query r) JWT_PARAM = []" and "Values_Get (PostForm r) JWT_PARAM = []"
    and "Body r \<noteq> None" and "Values_Get (Header r) AUTH_HEADER = ''JWT '' @ tok" and "tok \<noteq> []"
  shows "ExtractJwt r = (tok, True)"
  using assms by (simp add: ExtractJwt_def TrimPrefix_def)

text \<open>A lone query value, or a lone form value, is returned whatever the header holds.\<close>

lemma ExtractJwt_query_only:
  assumes "Values_Get (Query r) JWT_PARAM = tok" and "tok \<noteq> []"
    and "Values_Get (PostForm r) JWT_PARAM = []"
  shows "ExtractJwt r = (tok, True)"
  using assms by (auto simp add: ExtractJwt_def Let_def)

lemma ExtractJwt_form_only:
  assumes "Values_Get (Query r) JWT_PARAM = []" and "Body r \<noteq> None"
    and "Values_Get (PostForm r) JWT_PARAM = tok" and "tok \<noteq> []"
  shows "ExtractJwt r = (tok, True)"
  using assms by (auto simp add: ExtractJwt_def Let_def)

text \<open>Without a query value, a request with no body yields no token, header or not.\<close>

lemma ExtractJwt_no_body:
  assumes "Values_Get (Query r) JWT_PARAM = []" and "Body r = None"
  shows "ExtractJwt r = ([], False)"
  using assms by (simp add: ExtractJwt_def)

text \<open>
  Claim C8: a request with an Authorization header \<open>JWT <token>\<close>, no \<open>jwt\<close> query
  parameter and no \<open>jwt\<close> form field yields the header's token. Evaluated on a GET request
  without a body whose header is \<open>JWT abc\<close>: extraction fails, the header is never read.
\<close>

theorem ExtractJwt_header_without_body_fails:
  "ExtractJwt (req_header ''abc'') = ([], False)"
  by (simp add: ExtractJwt_def Values_Get_def JWT_PARAM_def req_header_def)

section \<open>QSH validation (claim C2)\<close>

text \<open>
  Claim C2: for claims whose \<open>qsh\<close> entry is the empty string, and for every request,
  \<open>ValidateQshFromRequest\<close> returns true, also when \<open>skipQsh\<close> is false: the claim is
  never compared with a canonical hash.
\<close>

theorem ValidateQshFromRequest_empty_qsh:
  "index claims ''qsh'' = JString [] \<Longrightarrow> ValidateQshFromRequest X claims r addon skipQsh"
  by (simp add: ValidateQshFromRequest_def)

theorem ValidateQshFromRequest_empty_qsh_witness:
  "index [(''iss'', JString ''tenantA''), (''qsh'', JString [])] ''qsh'' = JString [] \<and>
   ValidateQshFromRequest ext0 [(''iss'', JString ''tenantA''), (''qsh'', JString [])]
     (req_query ''t.emptyqsh'') addon0 False"
proof -
  have h: "index [(''iss'', JString ''tenantA''), (''qsh'', JString [])] ''qsh'' = JString []"
    by (simp add: index_def)
  show ?thesis
    using h ValidateQshFromRequest_empty_qsh [OF h, of ext0 "req_query ''t.emptyqsh''" addon0 False]
    by simp
qed

text \<open>An absent \<open>qsh\<close> claim is the nil interface, which no hash equals: validation fails unless QSH is skipped.\<close>

lemma ValidateQshFromRequest_absent_qsh:
  "index claims ''qsh'' = JNil \<Longrightarrow> ValidateQshFromRequest X claims r addon skipQsh = skipQsh"
  by (simp add: ValidateQshFromRequest_def)

section \<open>The Authentication Middleware (claims C1, C3, C7, C9)\<close>

text \<open>Once the token is extracted and its issuer is a non-empty string, steps 4 to 9 run.\<close>

lemma auth_prefix:
  assumes "ExtractJwt r = (token, True)"
    and "extractUnverifiedClaims X token = (uc, True)"
    and "index uc ''iss'' = JString clientKey" and "clientKey \<noteq> []"
    and "index uc ''qsh'' \<noteq> JString []"
  shows "AuthenticationMiddleware_ServeHTTP X addon skipQsh r =
           auth_verify X addon skipQsh r token clientKey []"
  using assms
  by (simp add: AuthenticationMiddleware_ServeHTTP_def assert_string_def)

text \<open>
  Claim C1: with \<open>skipQsh = false\<close>, a request whose token carries no \<open>qsh\<close> claim is
  answered with the 401 of a missing QSH, and the wrapped handler is not invoked. Evaluated
  on three requests. A token without \<open>qsh\<close> for an unknown tenant is answered 500 by the
  tenant lookup; a token without \<open>qsh\<close> for a known tenant is answered with the query hash
  mismatch of step 8; neither gets the missing-QSH failure, since the absent claim is the
  nil interface and not the empty string. A token whose \<open>qsh\<close> is the empty string gets
  the failure written, but the request goes on and reaches the wrapped handler.
\<close>

theorem auth_missing_qsh_not_rejected:
  "AuthenticationMiddleware_ServeHTTP ext0 addon0 False (req_query ''t.noqsh.B'') =
     Returned [StoreGet ''tenantB'',
               SendError 500 ''Could not lookup stored client data for clientKey''] \<and>
   AuthenticationMiddleware_ServeHTTP ext0 addon0 False (req_query ''t.noqsh'') =
     Returned [StoreGet ''tenantA'', SendError 401 ''Auth failure: Query hash mismatch''] \<and>
   AuthenticationMiddleware_ServeHTTP ext0 addon0 False (req_query ''t.emptyqsh'') =
     Returned
      [SendError 401 ''JWT claim did not contain the query string hash (qsh) claim'',
       StoreGet ''tenantA'',
       SetHeader ''X-acpt'' ''HS256:iss=my-addon,aud=tenantA,sub='',
       StoreGet ''tenantA'',
       Forward
        [(''clientKey'', ''tenantA''), (''hostBaseUrl'', ''https://host.example''),
         (''token'', ''HS256:iss=my-addon,aud=tenantA,sub=''),
         (''userAccountId'', []), (''tenantContext'', ''{}'')]] \<and>
   handler_invoked (AuthenticationMiddleware_ServeHTTP ext0 addon0 False (req_query ''t.emptyqsh''))"
  by (simp add: auth_defs fixture_defs outcome_defs)

text \<open>An empty issuer is rejected with 401 before any tenant lookup.\<close>

lemma auth_empty_issuer:
  assumes "ExtractJwt r = (token, True)"
    and "extractUnverifiedClaims X token = (c, True)"
    and "index c ''iss'' = JString []"
  shows "AuthenticationMiddleware_ServeHTTP X addon skipQsh r =
           Returned [SendError 401 ''JWT claim did not contain the issuer (iss) claim'']"
  using assms by (simp add: AuthenticationMiddleware_ServeHTTP_def)

text \<open>An issuer that is not a string (so also an absent one) makes the handler panic.\<close>

lemma auth_issuer_not_a_string:
  assumes "ExtractJwt r = (token, True)"
    and "extractUnverifiedClaims X token = (c, True)"
    and "assert_string (index c ''iss'') = None"
  shows "AuthenticationMiddleware_ServeHTTP X addon skipQsh r = Panicked []"
  using assms
  by (auto simp add: AuthenticationMiddleware_ServeHTTP_def assert_string_def split: jval.splits)

text \<open>
  Claim C3: a request whose token's claims hold no issuer, or an empty one, ends with the
  401 of a missing issuer, without a crash and without a tenant lookup. Evaluated on a
  token whose claims have no \<open>iss\<close> entry: the handler panics at the type assertion of
  line 103, having written no response.
\<close>

theorem auth_absent_issuer_panics:
  "AuthenticationMiddleware_ServeHTTP ext0 addon0 False (req_query ''t.noiss'') = Panicked []"
  by (simp add: auth_defs fixture_defs)


text \<open>
  What makes the verifying parse fail: a token that does not parse, a key function that
  rejects the algorithm, a signature that does not verify, claims that are not valid.
\<close>

lemma jwt_Parse_failures:
  "(\<forall>t. ParseUnverified X token \<noteq> (Some t, True)) \<Longrightarrow> \<exists>err. jwt_Parse X token keyFunc = Inl err"
  "ParseUnverified X token = (Some t, True) \<Longrightarrow> keyFunc t = Inl e \<Longrightarrow>
     jwt_Parse X token keyFunc = Inl e"
  "ParseUnverified X token = (Some t, True) \<Longrightarrow> keyFunc t = Inr key \<Longrightarrow>
     Claims t = Some c \<Longrightarrow> Method t = Some m \<Longrightarrow> \<not> (VerifySig X token m key \<and> ClaimsValid X c) \<Longrightarrow>
     \<exists>err. jwt_Parse X token keyFunc = Inl err"
  by (auto simp add: jwt_Parse_def split: prod.splits option.splits bool.splits sum.splits)

text \<open>A verifying parse that succeeds returns the token of the unverified parse, checked.\<close>

lemma jwt_Parse_success:
  assumes "jwt_Parse X token keyFunc = Inr vt"
  shows "\<exists>key c m. ParseUnverified X token = (Some vt, True) \<and> keyFunc vt = Inr key \<and>
           Claims vt = Some c \<and> Method vt = Some m \<and> VerifySig X token m key \<and> ClaimsValid X c"
  using assms
  by (auto simp add: jwt_Parse_def split: prod.splits option.splits bool.splits sum.splits if_splits)

text \<open>The key function accepts the algorithm headers HS256 and RS256 alone.\<close>

lemma auth_keyFunc_rejects:
  assumes "index (THeader t) ''alg'' \<noteq> JString ''HS256''"
    and "index (THeader t) ''alg'' \<noteq> JString ''RS256''"
  shows "\<exists>err. auth_keyFunc secret t = Inl err"
  using assms by (auto simp add: auth_keyFunc_def Let_def)

text \<open>
  Claim C7, as the code has it: for a request whose token was extracted, names a non-empty
  issuer and has a \<open>qsh\<close> claim other than the empty string, a failed tenant lookup is
  answered 500; an empty shared secret is answered 401; every failure of the verifying
  parse is answered 500, be it a token that does not parse, an algorithm the key function
  rejects, an invalid signature or invalid (expired) claims; a query hash mismatch is
  answered 401; a failure to sign the session token is answered 500. In none of these
  cases is the wrapped handler invoked.
\<close>

theorem auth_failure_status_classes:
  assumes "ExtractJwt r = (token, True)"
    and "extractUnverifiedClaims X token = (uc, True)"
    and "index uc ''iss'' = JString clientKey" and "clientKey \<noteq> []"
    and "index uc ''qsh'' \<noteq> JString []"
  shows
    "(Store_Get (Store addon) clientKey = None \<longrightarrow>
        rejected_with 500 (AuthenticationMiddleware_ServeHTTP X addon skipQsh r)) \<and>
     (\<forall>tenant.
        Store_Get (Store addon) clientKey = Some tenant \<longrightarrow>
          (SharedSecret tenant = [] \<longrightarrow>
             rejected_with 401 (AuthenticationMiddleware_ServeHTTP X addon skipQsh r)) \<and>
          (SharedSecret tenant \<noteq> [] \<longrightarrow>
             (\<forall>err. jwt_Parse X token (auth_keyFunc (SharedSecret tenant)) = Inl err \<longrightarrow>
                rejected_with 500 (AuthenticationMiddleware_ServeHTTP X addon skipQsh r)) \<and>
             ((\<forall>t. ParseUnverified X token \<noteq> (Some t, True)) \<longrightarrow>
                rejected_with 500 (AuthenticationMiddleware_ServeHTTP X addon skipQsh r)) \<and>
             (\<forall>t err. ParseUnverified X token = (Some t, True) \<and>
                auth_keyFunc (SharedSecret tenant) t = Inl err \<longrightarrow>
                rejected_with 500 (AuthenticationMiddleware_ServeHTTP X addon skipQsh r)) \<and>
             (\<forall>t. ParseUnverified X token = (Some t, True) \<and>
                index (THeader t) ''alg'' \<noteq> JString ''HS256'' \<and>
                index (THeader t) ''alg'' \<noteq> JString ''RS256'' \<longrightarrow>
                rejected_with 500 (AuthenticationMiddleware_ServeHTTP X addon skipQsh r)) \<and>
             (\<forall>t c m key. ParseUnverified X token = (Some t, True) \<and> Claims t = Some c \<and>
                Method t = Some m \<and> auth_keyFunc (SharedSecret tenant) t = Inr key \<longrightarrow>
                (\<not> VerifySig X token m key \<longrightarrow>
                   rejected_with 500 (AuthenticationMiddleware_ServeHTTP X addon skipQsh r)) \<and>
                (VerifySig X token m key \<and> \<not> ClaimsValid X c \<longrightarrow>
                   rejected_with 500 (AuthenticationMiddleware_ServeHTTP X addon skipQsh r)) \<and>
                (VerifySig X token m key \<and> ClaimsValid X c \<and>
                 \<not> ValidateQshFromRequest X c r addon skipQsh \<longrightarrow>
                   rejected_with 401 (AuthenticationMiddleware_ServeHTTP X addon skipQsh r)) \<and>
                (\<forall>addonKey err.
                   VerifySig X token m key \<and> ClaimsValid X c \<and>
                   ValidateQshFromRequest X c r addon skipQsh \<and> Key addon = Some addonKey \<and>
                   SignedString X SigningMethodHS256 (sessionClaims addonKey clientKey c)
                     (SharedSecret tenant) = Inl err \<longrightarrow>
                   rejected_with 500 (AuthenticationMiddleware_ServeHTTP X addon skipQsh r)))))"
proof -
  let ?out = "AuthenticationMiddleware_ServeHTTP X addon skipQsh r"
  have run: "?out = auth_verify X addon skipQsh r token clientKey []"
    by (rule auth_prefix [OF assms])
  have lookup: "Store_Get (Store addon) clientKey = None \<Longrightarrow> rejected_with 500 ?out"
    unfolding run by (simp add: auth_verify_def outcome_defs)
  have secret: "rejected_with 401 ?out"
    if "Store_Get (Store addon) clientKey = Some tenant" "SharedSecret tenant = []" for tenant
    unfolding run using that by (simp add: auth_verify_def outcome_defs)
  have parse: "rejected_with 500 ?out"
    if "Store_Get (Store addon) clientKey = Some tenant" "SharedSecret tenant \<noteq> []"
      "jwt_Parse X token (auth_keyFunc (SharedSecret tenant)) = Inl err" for tenant err
    unfolding run using that by (simp add: auth_verify_def outcome_defs)
  have checked: "(\<not> ValidateQshFromRequest X c r addon skipQsh \<longrightarrow> rejected_with 401 ?out) \<and>
      (\<forall>addonKey err. ValidateQshFromRequest X c r addon skipQsh \<and> Key addon = Some addonKey \<and>
         SignedString X SigningMethodHS256 (sessionClaims addonKey clientKey c)
           (SharedSecret tenant) = Inl err \<longrightarrow> rejected_with 500 ?out)"
    if "Store_Get (Store addon) clientKey = Some tenant" "SharedSecret tenant \<noteq> []"
      "ParseUnverified X token = (Some t, True)" "Claims t = Some c" "Method t = Some m"
      "auth_keyFunc (SharedSecret tenant) t = Inr key" "VerifySig X token m key" "ClaimsValid X c"
    for tenant t c m key
    unfolding run using that
    by (auto simp add: auth_verify_def auth_finish_def createSessionToken_def jwt_Parse_def
        outcome_defs Let_def)
  show ?thesis
  proof (intro conjI allI impI)
    show "rejected_with 500 ?out" if "Store_Get (Store addon) clientKey = None"
      using that by (rule lookup)
  next
    fix tenant
    assume "Store_Get (Store addon) clientKey = Some tenant" "SharedSecret tenant = []"
    then show "rejected_with 401 ?out" by (rule secret)
  next
    fix tenant err
    assume "Store_Get (Store addon) clientKey = Some tenant" "SharedSecret tenant \<noteq> []"
      "jwt_Parse X token (auth_keyFunc (SharedSecret tenant)) = Inl err"
    then show "rejected_with 500 ?out" by (rule parse)
  next
    fix tenant
    assume t: "Store_Get (Store addon) clientKey = Some tenant" "SharedSecret tenant \<noteq> []"
      and "\<forall>t. ParseUnverified X token \<noteq> (Some t, True)"
    then obtain err where "jwt_Parse X token (auth_keyFunc (SharedSecret tenant)) = Inl err"
      using jwt_Parse_failures(1) by blast
    with t show "rejected_with 500 ?out" by (rule parse)
  next
    fix tenant t err
    assume t: "Store_Get (Store addon) clientKey = Some tenant" "SharedSecret tenant \<noteq> []"
      and "ParseUnverified X token = (Some t, True) \<and> auth_keyFunc (SharedSecret tenant) t = Inl err"
    then have "jwt_Parse X token (auth_keyFunc (SharedSecret tenant)) = Inl err"
      using jwt_Parse_failures(2) by blast
    with t show "rejected_with 500 ?out" by (rule parse)
  next
    fix tenant t
    assume t: "Store_Get (Store addon) clientKey = Some tenant" "SharedSecret tenant \<noteq> []"
      and a: "ParseUnverified X token = (Some t, True) \<and>
        index (THeader t) ''alg'' \<noteq> JString ''HS256'' \<and>
        index (THeader t) ''alg'' \<noteq> JString ''RS256''"
    then obtain err where "auth_keyFunc (SharedSecret tenant) t = Inl err"
      using auth_keyFunc_rejects by blast
    with a have "jwt_Parse X token (auth_keyFunc (SharedSecret tenant)) = Inl err"
      using jwt_Parse_failures(2) by blast
    with t show "rejected_with 500 ?out" by (rule parse)
  next
    fix tenant t c m key
    assume t: "Store_Get (Store addon) clientKey = Some tenant" "SharedSecret tenant \<noteq> []"
      and a: "ParseUnverified X token = (Some t, True) \<and> Claims t = Some c \<and>
        Method t = Some m \<and> auth_keyFunc (SharedSecret tenant) t = Inr key"
      and "\<not> VerifySig X token m key"
    then obtain err where "jwt_Parse X token (auth_keyFunc (SharedSecret tenant)) = Inl err"
      using jwt_Parse_failures(3) by blast
    with t show "rejected_with 500 ?out" by (rule parse)
  next
    fix tenant t c m key
    assume t: "Store_Get (Store addon) clientKey = Some tenant" "SharedSecret tenant \<noteq> []"
      and a: "ParseUnverified X token = (Some t, True) \<and> Claims t = Some c \<and>
        Method t = Some m \<and> auth_keyFunc (SharedSecret tenant) t = Inr key"
      and "VerifySig X token m key \<and> \<not> ClaimsValid X c"
    then obtain err where "jwt_Parse X token (auth_keyFunc (SharedSecret tenant)) = Inl err"
      using jwt_Parse_failures(3) by blast
    with t show "rejected_with 500 ?out" by (rule parse)
  next
    fix tenant t c m key
    assume "Store_Get (Store addon) clientKey = Some tenant" "SharedSecret tenant \<noteq> []"
      "ParseUnverified X token = (Some t, True) \<and> Claims t = Some c \<and>
        Method t = Some m \<and> auth_keyFunc (SharedSecret tenant) t = Inr key"
      "VerifySig X token m key \<and> ClaimsValid X c \<and> \<not> ValidateQshFromRequest X c r addon skipQsh"
    then show "rejected_with 401 ?out"
      using checked by blast
  next
    fix tenant t c m key addonKey err
    assume "Store_Get (Store addon) clientKey = Some tenant" "SharedSecret tenant \<noteq> []"
      "ParseUnverified X token = (Some t, True) \<and> Claims t = Some c \<and>
        Method t = Some m \<and> auth_keyFunc (SharedSecret tenant) t = Inr key"
      "VerifySig X token m key \<and> ClaimsValid X c \<and>
        ValidateQshFromRequest X c r addon skipQsh \<and> Key addon = Some addonKey \<and>
        SignedString X SigningMethodHS256 (sessionClaims addonKey clientKey c)
          (SharedSecret tenant) = Inl err"
    then show "rejected_with 500 ?out"
      using checked by blast
  qed
qed

text \<open>
  The theorem at a token with a bad signature for the stored tenant: the verifying parse
  fails and the answer is 500.
\<close>

theorem auth_failure_status_classes_witness:
  "ExtractJwt (req_query ''t.badsig'') = (''t.badsig'', True) \<and>
   extractUnverifiedClaims ext0 ''t.badsig'' =
     ([(''iss'', JString ''tenantA''), (''qsh'', JString ''H'')], True) \<and>
   ParseUnverified ext0 ''t.badsig'' =
     (Some (hs256_token [(''iss'', JString ''tenantA''), (''qsh'', JString ''H'')]), True) \<and>
   Store_Get (Store addon0) ''tenantA'' = Some tenantA \<and>
   SharedSecret tenantA \<noteq> [] \<and>
   auth_keyFunc (SharedSecret tenantA)
     (hs256_token [(''iss'', JString ''tenantA''), (''qsh'', JString ''H'')]) = Inr (BytesKey ''secretA'') \<and>
   \<not> VerifySig ext0 ''t.badsig'' SigningMethodHS256 (BytesKey ''secretA'') \<and>
   jwt_Parse ext0 ''t.badsig'' (auth_keyFunc (SharedSecret tenantA)) = Inl ''signature is invalid'' \<and>
   rejected_with 500 (AuthenticationMiddleware_ServeHTTP ext0 addon0 False (req_query ''t.badsig''))"
proof -
  let ?c = "[(''iss'', JString ''tenantA''), (''qsh'', JString ''H'')]"
  have h1: "ExtractJwt (req_query ''t.badsig'') = (''t.badsig'', True)"
    by (simp add: ExtractJwt_def Values_Get_def JWT_PARAM_def AUTH_HEADER_def req_query_def)
  have p: "ParseUnverified ext0 ''t.badsig'' = (Some (hs256_token ?c), True)"
    by (simp add: ext0_def tokens0_def)
  have h2: "extractUnverifiedClaims ext0 ''t.badsig'' = (?c, True)"
    by (simp add: extractUnverifiedClaims_def jwt_Parse_nil_def p hs256_token_def)
  have h3: "index ?c ''iss'' = JString ''tenantA''"
    by (simp add: index_def)
  have h4: "''tenantA'' \<noteq> []"
    by simp
  have h5: "index ?c ''qsh'' \<noteq> JString []"
    by (simp add: index_def)
  have s1: "Store_Get (Store addon0) ''tenantA'' = Some tenantA"
    by (simp add: Store_Get_def addon0_def tenantA_def)
  have s2: "SharedSecret tenantA \<noteq> []"
    by (simp add: tenantA_def)
  have s3: "auth_keyFunc (SharedSecret tenantA) (hs256_token ?c) = Inr (BytesKey ''secretA'')"
    by (simp add: auth_keyFunc_def hs256_token_def index_def tenantA_def SigningMethodHS256_def)
  have s4: "\<not> VerifySig ext0 ''t.badsig'' SigningMethodHS256 (BytesKey ''secretA'')"
    by (simp add: ext0_def)
  have c1: "Claims (hs256_token ?c) = Some ?c"
    by (simp add: hs256_token_def)
  have m1: "Method (hs256_token ?c) = Some SigningMethodHS256"
    by (simp add: hs256_token_def)
  have s5: "jwt_Parse ext0 ''t.badsig'' (auth_keyFunc (SharedSecret tenantA)) = Inl ''signature is invalid''"
    by (simp add: jwt_Parse_def p s3 c1 m1 s4)
  from auth_failure_status_classes [OF h1 h2 h3 h4 h5, of addon0 False]
  have "rejected_with 500 (AuthenticationMiddleware_ServeHTTP ext0 addon0 False (req_query ''t.badsig''))"
    using s1 s2 s5 by blast
  with h1 h2 p s1 s2 s3 s4 s5 show ?thesis by blast
qed

text \<open>
  Claim C7 as stated fails: the token with a bad signature, and the token with expired
  claims, are answered with status 500, not with a 401.
\<close>

theorem auth_failure_status_classes_counterexample:
  "status_of (events_of (AuthenticationMiddleware_ServeHTTP ext0 addon0 False (req_query ''t.badsig''))) = 500 \<and>
   status_of (events_of (AuthenticationMiddleware_ServeHTTP ext0 addon0 False (req_query ''t.expired''))) = 500"
  by (simp add: auth_defs fixture_defs outcome_defs)

text \<open>
  The session token names the add-on as issuer and the tenant as audience, and carries as
  subject the claim \<open>subject\<close> of the verified token when that is a string.
\<close>

lemma sessionClaims_fields:
  "Issuer (sessionClaims addonKey clientKey verClaims) = addonKey \<and>
   Audience (sessionClaims addonKey clientKey verClaims) = clientKey \<and>
   Subject (sessionClaims addonKey clientKey verClaims) =
     (case index verClaims ''subject'' of JString s \<Rightarrow> s | _ \<Rightarrow> [])"
  by (simp add: sessionClaims_def assert_string_def split: jval.splits)

text \<open>The token is signed with HS256 and the tenant's shared secret, and set as \<open>X-acpt\<close>.\<close>

lemma createSessionToken_signed:
  assumes "createSessionToken X addon clientKey tenant verClaims = Some (Inr tok, hs)"
  shows "\<exists>addonKey. Key addon = Some addonKey \<and>
           SignedString X (SigningMethodHMAC ''HS256'') (sessionClaims addonKey clientKey verClaims)
             (SharedSecret tenant) = Inr tok \<and>
           hs = [SetHeader ''X-acpt'' tok]"
  using assms
  by (auto simp add: createSessionToken_def SigningMethodHS256_def split: option.splits sum.splits)

text \<open>
  Claim C9: on a successfully authenticated request the session token has the add-on's key
  as issuer, the tenant's \<open>clientKey\<close> as audience, the host account identifier of the
  verified claims as subject when one is present, is signed with the tenant's shared secret
  using HS256 and is set as the \<open>X-acpt\<close> header. Evaluated on a valid token whose claims
  hold \<open>sub = acct-1\<close>: the request is forwarded with \<open>userAccountId = acct-1\<close> (read from
  \<open>sub\<close>, line 223), while the session token is signed with an empty subject, since
  \<open>createSessionToken\<close> reads the claim named \<open>subject\<close> (line 190).
\<close>

theorem session_token_subject_dropped:
  "AuthenticationMiddleware_ServeHTTP ext0 addon0 False (req_query ''t.good'') =
     Returned
      [StoreGet ''tenantA'',
       SetHeader ''X-acpt'' ''HS256:iss=my-addon,aud=tenantA,sub='',
       StoreGet ''tenantA'',
       Forward
        [(''clientKey'', ''tenantA''), (''hostBaseUrl'', ''https://host.example''),
         (''token'', ''HS256:iss=my-addon,aud=tenantA,sub=''),
         (''userAccountId'', ''acct-1''), (''tenantContext'', ''{}'')]] \<and>
   Subject (sessionClaims ''my-addon'' ''tenantA''
      [(''iss'', JString ''tenantA''), (''sub'', JString ''acct-1''), (''qsh'', JString ''H'')]) = []"
  by (simp add: auth_defs fixture_defs)


section \<open>The Key Resolver (claim C4)\<close>

text \<open>A live fetch that succeeds returns the fetched text and offers it to the cache.\<close>

lemma fetchKeyWithKeyId_success:
  assumes "HttpGet X (Fetches st) keyId = Response 200 (Inr pem)"
  shows "fetchKeyWithKeyId X st keyId =
           (Inr pem, st\<lparr>Fetches := Suc (Fetches st),
                        keyFallbackCache := cache_Add (Now X) (keyFallbackCache st) keyId pem\<rparr>)"
  using assms by (simp add: fetchKeyWithKeyId_def)

text \<open>
  A live fetch answered with another status consults the cache: the text of an unexpired
  entry is returned, and the resolver fails when there is none.
\<close>

lemma fetchKeyWithKeyId_non_success:
  assumes "HttpGet X (Fetches st) keyId = Response status body" and "status \<noteq> 200"
  shows "fst (fetchKeyWithKeyId X st keyId) =
           (case cache_Get (Now X) (keyFallbackCache st) keyId of
              Some pem \<Rightarrow> Inr pem
            | None \<Rightarrow> Inl ''Could not retrieve public Key from CDN or fallbackCache'')"
  using assms by (simp add: fetchKeyWithKeyId_def split: option.splits)

text \<open>A live fetch that fails in transport returns that error, whatever the cache holds.\<close>

lemma fetchKeyWithKeyId_transport_error:
  assumes "HttpGet X (Fetches st) keyId = TransportError err"
  shows "fst (fetchKeyWithKeyId X st keyId) = Inl err"
  using assms by (simp add: fetchKeyWithKeyId_def)

text \<open>
  Claim C4: when the live fetch fails, by a transport error or by a non-success status, the
  resolver consults the fallback cache, returns the cached text of a fresh entry and fails
  only when there is none. Evaluated on the key id \<open>k9\<close>, for which the cache holds an
  unexpired entry and the endpoint is unreachable: the resolver returns the transport error
  and not the cached key.
\<close>

theorem fetchKeyWithKeyId_transport_error_skips_cache:
  "HttpGet ext0 (Fetches st_cached) ''k9'' = TransportError ''dial tcp: i/o timeout'' \<and>
   cache_Get (Now ext0) (keyFallbackCache st_cached) ''k9'' = Some ''PEM-k9'' \<and>
   fst (fetchKeyWithKeyId ext0 st_cached ''k9'') = Inl ''dial tcp: i/o timeout''"
  by (simp add: fetchKeyWithKeyId_def cache_Get_def ext0_def st_cached_def)

section \<open>The Installation Handshake Middleware (claims C5, C10)\<close>

lemma Body_update_same: "Body r = Some b \<Longrightarrow> r\<lparr>Body := Some b\<rparr> = r"
  by (cases r) simp

text \<open>
  Claim C5, as the code has it: for an installation request whose JSON body holds a
  \<open>baseUrl\<close> field and no \<open>clientKey\<close> field, the middleware logs the condition and
  returns: the wrapped handler is not invoked, no error response is written and the
  resolver state is untouched.
\<close>

theorem install_missing_clientKey:
  assumes "Body r = Some b"
    and "index_ok (JsonDecode X b) ''baseUrl'' = Some baseUrl"
    and "index_ok (JsonDecode X b) ''clientKey'' = None"
  shows "VerifyInstallationMiddleware_ServeHTTP X addon st r =
           (Returned [LogWarn ''No clientKey provided for host %s''], st)"
  using assms by (simp add: VerifyInstallationMiddleware_ServeHTTP_def)

theorem install_missing_clientKey_witness:
  "Body (req_install ''t.rs'' ''nokey'') = Some ''nokey'' \<and>
   index_ok (JsonDecode ext0 ''nokey'') ''baseUrl'' = Some (JString ''https://host.example'') \<and>
   index_ok (JsonDecode ext0 ''nokey'') ''clientKey'' = None \<and>
   VerifyInstallationMiddleware_ServeHTTP ext0 addon0 st0 (req_install ''t.rs'' ''nokey'') =
     (Returned [LogWarn ''No clientKey provided for host %s''], st0)"
proof -
  have h1: "Body (req_install ''t.rs'' ''nokey'') = Some ''nokey''"
    by (simp add: req_install_def)
  have h2: "index_ok (JsonDecode ext0 ''nokey'') ''baseUrl'' = Some (JString ''https://host.example'')"
    by (simp add: index_ok_def ext0_def)
  have h3: "index_ok (JsonDecode ext0 ''nokey'') ''clientKey'' = None"
    by (simp add: index_ok_def ext0_def)
  show ?thesis
    using h1 h2 h3 install_missing_clientKey [OF h1 h2 h3, of addon0 st0] by simp
qed

text \<open>
  Claim C5 as stated fails: on the payload without \<open>clientKey\<close> the wrapped handler is
  not invoked.
\<close>

theorem install_missing_clientKey_counterexample:
  "\<not> handler_invoked (fst (VerifyInstallationMiddleware_ServeHTTP ext0 addon0 st0
        (req_install ''t.rs'' ''nokey'')))"
  by (simp add: VerifyInstallationMiddleware_ServeHTTP_def index_ok_def ext0_def
      req_install_def handler_invoked_def events_of_def)

text \<open>
  The client key the asymmetric verification returns is the issuer claim of the token of
  the request, whose signature was checked and whose claims are valid.
\<close>

lemma verified_issuer:
  assumes "verifyAsymmetricJwtAndGetClaims X addon st r = (Ok iss, st')"
  shows "\<exists>t c m key. ParseUnverified X (fst (ExtractJwt r)) = (Some t, True) \<and>
           Claims t = Some c \<and> Method t = Some m \<and> index c ''iss'' = JString iss \<and>
           VerifySig X (fst (ExtractJwt r)) m key \<and> ClaimsValid X c"
  using assms
  apply (simp add: verifyAsymmetricJwtAndGetClaims_def decodeAsymmetricToken_def
      decodeAsymmetric_def jwt_Parse_def jwt_Parse_nil_def assert_string_def
      split: prod.splits if_splits result.splits option.splits sum.splits jval.splits bool.splits)
  apply (auto split: prod.splits if_splits result.splits option.splits sum.splits jval.splits bool.splits)
  done

text \<open>
  Claim C10: for a signed (RS256) installation request, processed when signed installs are
  required and passing the asymmetric verification, the request is forwarded to the wrapped
  handler when the issuer of the verified token equals the \<open>clientKey\<close> field of the body,
  and is otherwise rejected with the 401 of a client key mismatch, the wrapped handler not
  being invoked.
\<close>

theorem signed_install_clientKey_check:
  assumes "SignedInstall addon" and "Body r = Some b"
    and "index_ok (JsonDecode X b) ''baseUrl'' = Some baseUrl"
    and "index_ok (JsonDecode X b) ''clientKey'' = Some clientKey"
    and "isJwtAsymmetric X r = Some True"
    and "verifyAsymmetricJwtAndGetClaims X addon st r = (Ok iss, st')"
  shows "(\<exists>t c. ParseUnverified X (fst (ExtractJwt r)) = (Some t, True) \<and> Claims t = Some c \<and>
            index c ''iss'' = JString iss) \<and>
         (if clientKey = JString iss
          then VerifyInstallationMiddleware_ServeHTTP X addon st r =
                 (Returned [Next (Some iss)], st')
          else VerifyInstallationMiddleware_ServeHTTP X addon st r =
                 (Returned [SendError 401
                    ''clientKey in install payload did not match authenticated client''], st') \<and>
               rejected_with 401 (fst (VerifyInstallationMiddleware_ServeHTTP X addon st r)))"
proof -
  from verified_issuer [OF assms(6)]
  have iss: "\<exists>t c. ParseUnverified X (fst (ExtractJwt r)) = (Some t, True) \<and> Claims t = Some c \<and>
            index c ''iss'' = JString iss"
    by blast
  have run: "VerifyInstallationMiddleware_ServeHTTP X addon st r = (install_next clientKey iss, st')"
    using assms
    by (simp add: VerifyInstallationMiddleware_ServeHTTP_def Body_update_same
        signedInstallMiddleware_ServeHTTP_def)
  show ?thesis
    using iss run
    by (auto simp add: install_next_def rejected_with_def handler_invoked_def events_of_def)
qed

theorem signed_install_clientKey_check_witness:
  "SignedInstall addon0 \<and>
   Body (req_install ''t.rs'' ''full'') = Some ''full'' \<and>
   index_ok (JsonDecode ext0 ''full'') ''clientKey'' = Some (JString ''tenantB'') \<and>
   isJwtAsymmetric ext0 (req_install ''t.rs'' ''full'') = Some True \<and>
   fst (verifyAsymmetricJwtAndGetClaims ext0 addon0 st0 (req_install ''t.rs'' ''full'')) = Ok ''tenantB'' \<and>
   fst (VerifyInstallationMiddleware_ServeHTTP ext0 addon0 st0 (req_install ''t.rs'' ''full'')) =
     Returned [Next (Some ''tenantB'')]"
proof -
  let ?r = "req_install ''t.rs'' ''full''"
  have h1: "SignedInstall addon0"
    by (simp add: addon0_def)
  have h2: "Body ?r = Some ''full''"
    by (simp add: req_install_def)
  have h3: "index_ok (JsonDecode ext0 ''full'') ''baseUrl'' = Some (JString ''https://host.example'')"
    by (simp add: index_ok_def ext0_def)
  have h4: "index_ok (JsonDecode ext0 ''full'') ''clientKey'' = Some (JString ''tenantB'')"
    by (simp add: index_ok_def ext0_def)
  have h5: "isJwtAsymmetric ext0 ?r = Some True"
    by (simp add: isJwtAsymmetric_def jwt_Parse_nil_def ExtractJwt_def Values_Get_def JWT_PARAM_def
        AUTH_HEADER_def req_install_def ext0_def tokens0_def rs256_token_def)
  have v: "fst (verifyAsymmetricJwtAndGetClaims ext0 addon0 st0 ?r) = Ok ''tenantB''"
    by (simp add: install_defs auth_defs fixture_defs)
  then have h6: "verifyAsymmetricJwtAndGetClaims ext0 addon0 st0 ?r =
      (Ok ''tenantB'', snd (verifyAsymmetricJwtAndGetClaims ext0 addon0 st0 ?r))"
    by (simp add: prod_eq_iff)
  from signed_install_clientKey_check [OF h1 h2 h3 h4 h5 h6]
  have "fst (VerifyInstallationMiddleware_ServeHTTP ext0 addon0 st0 ?r) = Returned [Next (Some ''tenantB'')]"
    by simp
  with h1 h2 h4 h5 v show ?thesis by blast
qed

section \<open>Routes (claim C6)\<close>

text \<open>
  Claim C6, as the code has it: for every base path, handlers and prior bindings, the
  handler bound to the \<open>installed\<close> path is wrapped by the installation-handshake gate,
  and the handler bound to the \<open>uninstalled\<close> path is wrapped by the steady-state
  Authentication Middleware, constructed with \<open>skipQsh = false\<close>.
\<close>

theorem uninstalled_route_gate:
  "snd (RegisterRoutes base enabled disabled s) (route_base base @ ''installed'') =
     Some (VerifyInstallationMiddleware InstalledHandler) \<and>
   snd (RegisterRoutes base enabled disabled s) (route_base base @ ''uninstalled'') =
     Some (AuthenticationMiddleware UninstalledHandler False)"
  by (simp add: RegisterRoutes_def Let_def NewAuthenticationMiddleware_def
      NewVerifyInstallationMiddleware_def split: option.splits)

text \<open>
  Claim C6 as stated fails: registered at the root, the handler bound to \<open>/uninstalled\<close> is
  not behind the installation-handshake gate.
\<close>

theorem uninstalled_route_gate_counterexample:
  "\<not> gated_by_installation_handshake
       (snd (RegisterRoutes [] (None :: unit option) None ([], Map.empty)) ''/uninstalled'')"
  by (simp add: RegisterRoutes_def Let_def NewAuthenticationMiddleware_def
      NewVerifyInstallationMiddleware_def route_base_def Trim_def
      gated_by_installation_handshake_def)


end
